theory Spec2Isabelle
  imports Complex_Main
begin

section \<open>Python, numpy and matplotlib primitives used by the script\<close>

text \<open>
  The script \<^verbatim>\<open>plot_locfin_posterior_hmc.py\<close> is orchestration code over numerical
  libraries. Floating-point numbers are modelled by exact rationals: rounding is not
  modelled. Every exception the script can raise is a value of \<open>py_error\<close>.
\<close>

datatype py_error =
  IndexError | ValueError | TypeError | RuntimeError | UnboundLocalError | FileNotFoundError

text \<open>
  Subscripting a list, \<^verbatim>\<open>xs[i]\<close>: an index from \<open>0\<close> up to the length reads from the
  front, an index from \<open>-1\<close> down to minus the length reads from the back, anything else
  raises IndexError.
\<close>

definition py_get :: "'a list \<Rightarrow> int \<Rightarrow> py_error + 'a" where
  "py_get xs i =
     (if 0 \<le> i \<and> i < int (length xs) then Inr (xs ! nat i)
      else if i < 0 \<and> - int (length xs) \<le> i then Inr (xs ! nat (int (length xs) + i))
      else Inl IndexError)"

text \<open>Python \<^verbatim>\<open>range(start, stop, step)\<close> as a list; a zero step raises ValueError.\<close>

definition py_range :: "int \<Rightarrow> int \<Rightarrow> int \<Rightarrow> py_error + int list" where
  "py_range start stop step =
     (if step = 0 then Inl ValueError
      else if 0 < step
        then Inr (map (\<lambda>k. start + int k * step) [0..<nat ((stop - start + step - 1) div step)])
        else Inr (map (\<lambda>k. start + int k * step) [0..<nat ((start - stop - step - 1) div (- step))]))"

text \<open>\<^verbatim>\<open>range(n)\<close> for the loops \<^verbatim>\<open>for t in range(ho_model.T)\<close>.\<close>

definition py_range1 :: "int \<Rightarrow> nat list" where
  "py_range1 n = [0..<nat n]"

text \<open>Decimal rendering of integers inside f-strings.\<close>

definition digit_char :: "nat \<Rightarrow> char" where
  "digit_char d = char_of (48 + d)"

function str_nat :: "nat \<Rightarrow> string" where
  "str_nat n = (if n < 10 then [digit_char n] else str_nat (n div 10) @ [digit_char (n mod 10)])"
  by pat_completeness auto
termination
  by (relation "measure id") auto

declare str_nat.simps [simp del]

definition str_int :: "int \<Rightarrow> string" where
  "str_int i = (if i < 0 then CHR ''-'' # str_nat (nat (- i)) else str_nat (nat i))"

text \<open>\<^verbatim>\<open>os.path.join(dir, name)\<close> for a relative \<open>name\<close>.\<close>

definition path_join :: "string \<Rightarrow> string \<Rightarrow> string" where
  "path_join d name =
     (if d = [] then name
      else if last d = CHR ''/'' then d @ name
      else d @ ''/'' @ name)"

subsection \<open>The density grid: \<^verbatim>\<open>np.mgrid\<close>, \<^verbatim>\<open>ravel\<close>, \<^verbatim>\<open>vstack\<close>, \<^verbatim>\<open>argmax\<close>\<close>

text \<open>
  \<^verbatim>\<open>np.mgrid[slice(lo, hi, b*1j)]\<close>: a complex step asks for \<open>|b|\<close> points from \<open>lo\<close> to
  \<open>hi\<close> inclusive; the spacing is \<open>(hi - lo) / (n - 1)\<close>, and \<open>1\<close> when \<open>n = 1\<close>.
\<close>

definition mgrid_axis :: "rat \<Rightarrow> rat \<Rightarrow> int \<Rightarrow> rat list" where
  "mgrid_axis lo hi b =
     (let n = nat \<bar>b\<bar>;
          step = (if n = 1 then 1 else (hi - lo) / (of_nat n - 1))
      in map (\<lambda>k. of_nat k * step + lo) [0..<n])"

text \<open>
  \<^verbatim>\<open>positions = np.vstack([grid[i].ravel() for i in range(p)])\<close>: row \<open>i\<close> holds, for every
  grid point in C order (last index fastest), the \<open>i\<close>-th coordinate of that point.
  \<^verbatim>\<open>np.vstack\<close> of an empty list raises ValueError.
\<close>

definition positions_rows :: "nat \<Rightarrow> rat list \<Rightarrow> py_error + rat list list" where
  "positions_rows p axis =
     (let n = length axis in
      if p = 0 then Inl ValueError
      else Inr (map (\<lambda>i. map (\<lambda>j. axis ! ((j div n ^ (p - 1 - i)) mod n)) [0..<n ^ p]) [0..<p]))"

text \<open>\<^verbatim>\<open>positions[:, j]\<close>: column \<open>j\<close> of the matrix.\<close>

definition column :: "rat list list \<Rightarrow> nat \<Rightarrow> rat list" where
  "column rows j = map (\<lambda>row. row ! j) rows"

definition n_columns :: "rat list list \<Rightarrow> nat" where
  "n_columns rows = (case rows of [] \<Rightarrow> 0 | r # _ \<Rightarrow> length r)"

text \<open>
  \<^verbatim>\<open>pdf.argmax()\<close>: the index of the first maximal entry; an empty array raises
  ValueError.
\<close>

fun argmax_scan :: "rat list \<Rightarrow> nat \<Rightarrow> nat \<Rightarrow> rat \<Rightarrow> nat" where
  "argmax_scan [] i best_i best = best_i"
| "argmax_scan (x # xs) i best_i best =
     (if best < x then argmax_scan xs (Suc i) i x else argmax_scan xs (Suc i) best_i best)"

definition argmax :: "rat list \<Rightarrow> py_error + nat" where
  "argmax xs = (case xs of [] \<Rightarrow> Inl ValueError | x # rest \<Rightarrow> Inr (argmax_scan rest 1 0 x))"

section \<open>Data model\<close>

text \<open>
  A tensor is a flat vector of numbers; the leading batch dimension of size one that
  the script carries around (\<^verbatim>\<open>theta.shape[0] = 1\<close>) is kept only for \<open>theta\<close> itself.
\<close>

type_synonym tensor = "rat list"

text \<open>A node of a recorded execution trace: its \<^verbatim>\<open>subtype\<close> tag and its value.\<close>

record node =
  subtype :: "string option"
  node_value :: tensor

text \<open>The arguments of \<^verbatim>\<open>MCMC(NUTS(model, target_accept_prob=..), num_samples=.., ..)\<close>.\<close>

record mcmc_config =
  target_accept_prob :: rat
  num_samples :: nat
  warmup_steps :: nat
  num_chains :: nat

text \<open>What a file written by the script holds.\<close>

datatype file_content = Png_image tensor | Png_figure

text \<open>
  The calls into the libraries that the claims speak about, in the order in which they
  are made.
\<close>

datatype call =
    Run_policy int
  | Vae_decode tensor
  | Save_image string
  | Plot_trace int
  | Mcmc_run mcmc_config int
  | Gaussian_kde
  | Subplots nat nat
  | Imshow nat nat
  | Set_title nat nat
  | Ax_remove nat nat
  | Contourf nat
  | Contour nat
  | Os_remove string
  | Savefig string

text \<open>
  The mutable state: the attribute \<^verbatim>\<open>ho_model.T\<close> of the loaded policy model, the
  regular files of the file system, and the log of library calls.
\<close>

record world =
  ho_T :: int
  files :: "string \<Rightarrow> file_content option"
  calls :: "call list"

text \<open>
  The loaded artifacts and the libraries, as parameters: the decoder, the policy network
  and the forward model of the policy model, the prior, the sampler and the kernel
  density estimator. Sampler and estimator may raise.
\<close>

record env =
  vae_decode :: "tensor \<Rightarrow> py_error + tensor"
  policy_design :: "(tensor \<times> rat) list \<Rightarrow> tensor"
  outcome :: "tensor \<Rightarrow> tensor \<Rightarrow> nat \<Rightarrow> rat"
  prior_theta :: tensor
  mcmc_samples :: "mcmc_config \<Rightarrow> int \<Rightarrow> (string \<rightharpoonup> tensor) \<Rightarrow> py_error + tensor list"
  gaussian_kde :: "tensor list \<Rightarrow> py_error + (tensor \<Rightarrow> rat)"

definition log_calls :: "call list \<Rightarrow> world \<Rightarrow> world" where
  "log_calls cs w = w\<lparr>calls := calls w @ cs\<rparr>"

section \<open>Policy roll-out\<close>

text \<open>
  Modelled from the spec: the class of the policy model (\<^verbatim>\<open>ho_model.model\<close>, loaded from
  the run-tracking store) is not in the source file. Following the spec, executing the
  policy model for a latent parameter produces the realised latent sample and an ordered
  sequence of (design, observation) pairs, one pair per step of a roll-out of length
  \<open>T\<close>; each value is tagged as latent, design or observation.
\<close>

fun rollout :: "env \<Rightarrow> tensor \<Rightarrow> nat \<Rightarrow> (tensor \<times> rat) list \<Rightarrow> node list" where
  "rollout E theta 0 hist = []"
| "rollout E theta (Suc n) hist =
     (let xi = policy_design E hist; y = outcome E xi theta (length hist)
      in \<lparr>subtype = Some ''design_sample'', node_value = xi\<rparr>
         # \<lparr>subtype = Some ''observation_sample'', node_value = [y]\<rparr>
         # rollout E theta n (hist @ [(xi, y)]))"

definition model_trace :: "env \<Rightarrow> tensor \<Rightarrow> int \<Rightarrow> node list" where
  "model_trace E theta T =
     \<lparr>subtype = Some ''latent_sample'', node_value = theta\<rparr> # rollout E theta (nat T) []"

text \<open>
  \<^verbatim>\<open>run_policy(implicit_model, theta)\<close>: record a trace of the (conditioned) model and
  collect the values by tag. \<^verbatim>\<open>torch.cat\<close> of an empty list raises.
\<close>

definition values_of :: "string \<Rightarrow> node list \<Rightarrow> tensor list" where
  "values_of tag trace = map node_value (filter (\<lambda>n. subtype n = Some tag) trace)"

definition run_policy ::
  "env \<Rightarrow> tensor option \<Rightarrow> world \<Rightarrow> (py_error + tensor list \<times> tensor list \<times> tensor) \<times> world" where
  "run_policy E theta w =
     (let trace = (case theta of
                     Some th \<Rightarrow> model_trace E th (ho_T w)
                   | None \<Rightarrow> model_trace E (prior_theta E) (ho_T w));
          designs = values_of ''design_sample'' trace;
          observations = values_of ''observation_sample'' trace;
          latents = values_of ''latent_sample'' trace;
          w' = log_calls [Run_policy (ho_T w)] w
      in if latents = [] then (Inl RuntimeError, w')
         else (Inr (designs, observations, concat latents), w'))"

section \<open>Renderers\<close>

text \<open>
  \<^verbatim>\<open>plt.subplots(nrow, ncol)\<close> squeezes the array of axes: a single Axes object for one
  subplot, a one-dimensional array for one row or one column, a two-dimensional array
  otherwise. A zero count raises ValueError.
\<close>

datatype axes = Axes_single | Axes_1d nat | Axes_2d nat nat

definition subplots :: "nat \<Rightarrow> nat \<Rightarrow> py_error + axes" where
  "subplots nrow ncol =
     (if nrow = 0 \<or> ncol = 0 then Inl ValueError
      else if nrow = 1 \<and> ncol = 1 then Inr Axes_single
      else if nrow = 1 then Inr (Axes_1d ncol)
      else if ncol = 1 then Inr (Axes_1d nrow)
      else Inr (Axes_2d nrow ncol))"

text \<open>\<^verbatim>\<open>axs[r, c]\<close> with non-negative indices.\<close>

fun axs_at2 :: "axes \<Rightarrow> nat \<Rightarrow> nat \<Rightarrow> py_error + unit" where
  "axs_at2 Axes_single r c = Inl TypeError"
| "axs_at2 (Axes_1d n) r c = Inl IndexError"
| "axs_at2 (Axes_2d nr nc) r c = (if r < nr \<and> c < nc then Inr () else Inl IndexError)"

text \<open>\<^verbatim>\<open>axs[i]\<close> with a non-negative index.\<close>

fun axs_at1 :: "axes \<Rightarrow> nat \<Rightarrow> py_error + unit" where
  "axs_at1 Axes_single i = Inl TypeError"
| "axs_at1 (Axes_1d n) i = (if i < n then Inr () else Inl IndexError)"
| "axs_at1 (Axes_2d nr nc) i = (if i < nr then Inr () else Inl IndexError)"

text \<open>\<^verbatim>\<open>axs[-1, k:]\<close>: the axes of the last row from column \<open>k\<close> on.\<close>

fun axs_last_row_from :: "axes \<Rightarrow> nat \<Rightarrow> py_error + (nat \<times> nat) list" where
  "axs_last_row_from Axes_single k = Inl TypeError"
| "axs_last_row_from (Axes_1d n) k = Inl IndexError"
| "axs_last_row_from (Axes_2d nr nc) k = Inr (map (\<lambda>c. (nr - 1, c)) [k..<nc])"

text \<open>The first failing access of a sequence of two-index accesses.\<close>

fun axs_all :: "axes \<Rightarrow> (nat \<times> nat) list \<Rightarrow> py_error + unit" where
  "axs_all axs [] = Inr ()"
| "axs_all axs ((r, c) # rest) =
     (case axs_at2 axs r c of Inl e \<Rightarrow> Inl e | Inr u \<Rightarrow> axs_all axs rest)"

text \<open>
  Elementwise subtraction of two vectors broadcasts a vector of length one and raises
  on any other length mismatch.
\<close>

definition tensor_sub_ok :: "tensor \<Rightarrow> tensor \<Rightarrow> bool" where
  "tensor_sub_ok a b = (length a = length b \<or> length a = 1 \<or> length b = 1)"

subsection \<open>\<^verbatim>\<open>plot_vae_decode\<close>\<close>

text \<open>
  One iteration of \<^verbatim>\<open>for i, embedding in enumerate(embedding_list)\<close>: decode, write the
  scratch image, read it back, show it on \<^verbatim>\<open>axs[row, col]\<close> and set the title; for
  \<^verbatim>\<open>i < len(T_list)\<close> the title needs the distance to \<^verbatim>\<open>embedding_list[-1]\<close>.
\<close>

definition decode_step ::
  "env \<Rightarrow> axes \<Rightarrow> string \<Rightarrow> tensor list \<Rightarrow> int list \<Rightarrow> nat \<Rightarrow> tensor \<Rightarrow> world
     \<Rightarrow> (py_error + unit) \<times> world" where
  "decode_step E axs tmp_img_dir embedding_list T_list i embedding w =
     (let row = i div 4; col = i mod 4 in
      case vae_decode E embedding of
        Inl e \<Rightarrow> (Inl e, log_calls [Vae_decode embedding] w)
      | Inr recon \<Rightarrow>
          (let w1 = log_calls [Vae_decode embedding, Save_image tmp_img_dir]
                      (w\<lparr>files := (files w)(tmp_img_dir \<mapsto> Png_image recon)\<rparr>) in
           case files w1 tmp_img_dir of
             None \<Rightarrow> (Inl FileNotFoundError, w1)
           | Some img \<Rightarrow>
               (case axs_at2 axs row col of
                  Inl e \<Rightarrow> (Inl e, w1)
                | Inr u \<Rightarrow>
                    (let w2 = log_calls [Imshow row col] w1 in
                     if i < length T_list then
                       (case py_get embedding_list (- 1) of
                          Inl e \<Rightarrow> (Inl e, w2)
                        | Inr final \<Rightarrow>
                            if tensor_sub_ok embedding final
                            then (Inr (), log_calls [Set_title row col] w2)
                            else (Inl RuntimeError, w2))
                     else (Inr (), log_calls [Set_title row col] w2)))))"

fun decode_loop ::
  "env \<Rightarrow> axes \<Rightarrow> string \<Rightarrow> tensor list \<Rightarrow> int list \<Rightarrow> nat \<Rightarrow> tensor list \<Rightarrow> world
     \<Rightarrow> (py_error + unit) \<times> world" where
  "decode_loop E axs tmp embedding_list T_list i [] w = (Inr (), w)"
| "decode_loop E axs tmp embedding_list T_list i (embedding # rest) w =
     (case decode_step E axs tmp embedding_list T_list i embedding w of
        (Inl e, w') \<Rightarrow> (Inl e, w')
      | (Inr u, w') \<Rightarrow> decode_loop E axs tmp embedding_list T_list (Suc i) rest w')"

text \<open>
  \<^verbatim>\<open>os.remove(tmp_img_dir)\<close>: the variable is bound only inside the loop; removing a file
  that does not exist raises.
\<close>

definition remove_tmp :: "tensor list \<Rightarrow> string \<Rightarrow> world \<Rightarrow> (py_error + unit) \<times> world" where
  "remove_tmp embedding_list tmp_img_dir w =
     (if embedding_list = [] then (Inl UnboundLocalError, w)
      else (case files w tmp_img_dir of
              None \<Rightarrow> (Inl FileNotFoundError, w)
            | Some c \<Rightarrow> (Inr (), log_calls [Os_remove tmp_img_dir]
                                   (w\<lparr>files := (files w)(tmp_img_dir := None)\<rparr>))))"

definition vae_figure_path :: "string \<Rightarrow> nat \<Rightarrow> string \<Rightarrow> string \<Rightarrow> int \<Rightarrow> string" where
  "vae_figure_path dir p mi_estimator type index =
     dir @ ''/'' @ str_nat p @ ''_dim_'' @ mi_estimator @ ''_'' @ type @ ''_''
       @ str_int index @ ''_progress.png''"

definition plot_vae_decode ::
  "env \<Rightarrow> tensor list \<Rightarrow> string \<Rightarrow> string \<Rightarrow> int list \<Rightarrow> int \<Rightarrow> nat \<Rightarrow> string \<Rightarrow> world
     \<Rightarrow> (py_error + unit) \<times> world" where
  "plot_vae_decode E embedding_list dir mi_estimator T_list index p type w =
     (let ncol = 4; nrow = length T_list div ncol + 1;
          tmp_img_dir = path_join dir ''temp.png'' in
      case subplots nrow ncol of
        Inl e \<Rightarrow> (Inl e, w)
      | Inr axs \<Rightarrow>
          (case decode_loop E axs tmp_img_dir embedding_list T_list 0 embedding_list
                  (log_calls [Subplots nrow ncol] w) of
             (Inl e, w1) \<Rightarrow> (Inl e, w1)
           | (Inr u, w1) \<Rightarrow>
               (case axs_all axs (List.product [0..<nrow] [0..<ncol]) of
                  Inl e \<Rightarrow> (Inl e, w1)
                | Inr u \<Rightarrow>
                    (case axs_last_row_from axs (length embedding_list mod ncol) of
                       Inl e \<Rightarrow> (Inl e, w1)
                     | Inr removed \<Rightarrow>
                         (case remove_tmp embedding_list tmp_img_dir
                                 (log_calls (map (\<lambda>(r, c). Ax_remove r c) removed) w1) of
                            (Inl e, w2) \<Rightarrow> (Inl e, w2)
                          | (Inr u, w2) \<Rightarrow>
                              (let out = vae_figure_path dir p mi_estimator type index
                               in (Inr (), log_calls [Savefig out]
                                             (w2\<lparr>files := (files w2)(out \<mapsto> Png_figure)\<rparr>))))))))"

subsection \<open>\<^verbatim>\<open>plot_posterior_grid\<close>\<close>

text \<open>\<^verbatim>\<open>xs[:T]\<close>: a prefix; a negative \<open>T\<close> drops from the end.\<close>

definition py_prefix :: "'a list \<Rightarrow> int \<Rightarrow> 'a list" where
  "py_prefix xs T = (if T < 0 then take (nat (int (length xs) + T)) xs else take (nat T) xs)"

text \<open>
  One iteration of \<^verbatim>\<open>for i, T in enumerate(T_to_plot)\<close>: the maximum of the \<open>i\<close>-th
  density grid, the \<open>i\<close>-th axes, the first two coordinates of the true parameter and of
  every design up to \<open>T\<close>, then the filled and the line contour plot.
\<close>

definition grid_step ::
  "axes \<Rightarrow> (nat list \<times> tensor) list \<Rightarrow> tensor list \<Rightarrow> tensor list \<Rightarrow> nat \<Rightarrow> int \<Rightarrow> world
     \<Rightarrow> (py_error + unit) \<times> world" where
  "grid_step axs pdf_post_list designs true_theta i T w =
     (case py_get pdf_post_list (int i) of
        Inl e \<Rightarrow> (Inl e, w)
      | Inr f \<Rightarrow>
          if snd f = [] then (Inl ValueError, w)
          else (case axs_at1 axs i of
                  Inl e \<Rightarrow> (Inl e, w)
                | Inr u \<Rightarrow>
                    (case py_get true_theta 0 of
                       Inl e \<Rightarrow> (Inl e, w)
                     | Inr th \<Rightarrow>
                         if length th < 2 then (Inl IndexError, w)
                         else if list_all (\<lambda>design. 2 \<le> length design) (py_prefix designs T)
                         then (Inr (), log_calls [Contourf i, Contour i] w)
                         else (Inl IndexError, w))))"

fun grid_loop ::
  "axes \<Rightarrow> (nat list \<times> tensor) list \<Rightarrow> tensor list \<Rightarrow> tensor list \<Rightarrow> nat \<Rightarrow> int list \<Rightarrow> world
     \<Rightarrow> (py_error + unit) \<times> world" where
  "grid_loop axs pdf_post_list designs true_theta i [] w = (Inr (), w)"
| "grid_loop axs pdf_post_list designs true_theta i (T # rest) w =
     (case grid_step axs pdf_post_list designs true_theta i T w of
        (Inl e, w') \<Rightarrow> (Inl e, w')
      | (Inr u, w') \<Rightarrow> grid_loop axs pdf_post_list designs true_theta (Suc i) rest w')"

definition grid_figure_path :: "string \<Rightarrow> string \<Rightarrow> int \<Rightarrow> int \<Rightarrow> string" where
  "grid_figure_path dir mi_estimator T_last index =
     dir @ ''/2dim_'' @ mi_estimator @ ''_'' @ str_int T_last @ ''_'' @ str_int index
       @ ''progress.png''"

definition plot_posterior_grid ::
  "(rat \<times> rat) \<Rightarrow> tensor list \<Rightarrow> (nat list \<times> tensor) list \<Rightarrow> tensor list \<Rightarrow> int list \<Rightarrow> string
     \<Rightarrow> tensor list \<Rightarrow> string \<Rightarrow> int \<Rightarrow> world \<Rightarrow> (py_error + unit) \<times> world" where
  "plot_posterior_grid limits grid pdf_post_list designs T_to_plot mi_estimator true_theta dir
       index w =
     (if length grid \<noteq> 2 then (Inl ValueError, w)
      else case subplots 1 (length T_to_plot) of
        Inl e \<Rightarrow> (Inl e, w)
      | Inr axs \<Rightarrow>
          (case grid_loop axs pdf_post_list designs true_theta 0 T_to_plot
                  (log_calls [Subplots 1 (length T_to_plot)] w) of
             (Inl e, w1) \<Rightarrow> (Inl e, w1)
           | (Inr u, w1) \<Rightarrow>
               (case py_get T_to_plot (- 1) of
                  Inl e \<Rightarrow> (Inl e, w1)
                | Inr T_last \<Rightarrow>
                    (let out = grid_figure_path dir mi_estimator T_last index
                     in (Inr (), log_calls [Savefig out]
                                   (w1\<lparr>files := (files w1)(out \<mapsto> Png_figure)\<rparr>))))))"

section \<open>The main pipeline\<close>

text \<open>
  The command-line arguments the pipeline reads after the models are loaded. A token of
  \<^verbatim>\<open>--limits\<close> that \<^verbatim>\<open>float\<close> rejects is \<open>None\<close>.
\<close>

record args =
  T_to_plot_arg :: "int option"
  theta_index :: int
  bin :: int
  limits_arg :: "rat option list"
  T_step :: int

text \<open>What the lines before the roll-out compute.\<close>

record prelude =
  pre_theta :: "tensor list"
  pre_limits :: "rat \<times> rat"
  pre_grid_shape :: "nat list"
  pre_positions :: "tensor list"
  pre_T_to_plot :: "int list"

text \<open>\<^verbatim>\<open>tuple([float(x) for x in args.limits])\<close>.\<close>

definition parse_limits :: "rat option list \<Rightarrow> py_error + rat list" where
  "parse_limits xs = (if None \<in> set xs then Inl ValueError else Inr (map the xs))"

text \<open>
  Lines 221 and 222: the parsed limits are assigned and then overwritten by the
  constant pair \<^verbatim>\<open>(-1.5, 1.5)\<close>.
\<close>

definition grid_limits :: "args \<Rightarrow> py_error + rat \<times> rat" where
  "grid_limits a =
     (case parse_limits (limits_arg a) of
        Inl e \<Rightarrow> Inl e
      | Inr parsed \<Rightarrow> Inr (- (3 / 2), 3 / 2))"

text \<open>Lines 225 to 228: the checkpoints.\<close>

definition checkpoints :: "args \<Rightarrow> int \<Rightarrow> py_error + int list" where
  "checkpoints a model_T =
     (case T_to_plot_arg a of
        None \<Rightarrow> py_range 0 (model_T + 1) (T_step a)
      | Some n \<Rightarrow> py_range 0 (n + 1) (T_step a))"

definition main_setup :: "args \<Rightarrow> nat \<Rightarrow> int \<Rightarrow> py_error + prelude" where
  "main_setup a p model_T =
     (let theta_list = [[replicate p (1 / 2)]] in
      case py_get theta_list (theta_index a) of
        Inl e \<Rightarrow> Inl e
      | Inr th \<Rightarrow>
          (case grid_limits a of
             Inl e \<Rightarrow> Inl e
           | Inr lims \<Rightarrow>
               (let axis = mgrid_axis (fst lims) (snd lims) (bin a) in
                case positions_rows p axis of
                  Inl e \<Rightarrow> Inl e
                | Inr pos \<Rightarrow>
                    (case checkpoints a model_T of
                       Inl e \<Rightarrow> Inl e
                     | Inr Ts \<Rightarrow>
                         Inr \<lparr>pre_theta = th, pre_limits = lims,
                              pre_grid_shape = replicate p (length axis),
                              pre_positions = pos, pre_T_to_plot = Ts\<rparr>))))"

subsection \<open>The roll-out block (lines 232 to 261)\<close>

text \<open>
  One iteration of \<^verbatim>\<open>for t in range(ho_model.T)\<close>: the design and the observation of
  step \<open>t\<close>; every fifth design is decoded and saved.
\<close>

definition rollout_step ::
  "env \<Rightarrow> string \<Rightarrow> tensor list \<Rightarrow> tensor list \<Rightarrow> nat \<Rightarrow> tensor list \<times> rat list \<Rightarrow> world
     \<Rightarrow> (py_error + tensor list \<times> rat list) \<times> world" where
  "rollout_step E output_path designs observations t acc w =
     (case py_get designs (int t) of
        Inl e \<Rightarrow> (Inl e, w)
      | Inr xi \<Rightarrow>
          (case py_get observations (int t) of
             Inl e \<Rightarrow> (Inl e, w)
           | Inr yv \<Rightarrow>
               (case yv of
                  [y] \<Rightarrow>
                    (let acc' = (fst acc @ [xi], snd acc @ [y]) in
                     if t mod 5 = 0 then
                       (case vae_decode E xi of
                          Inl e \<Rightarrow> (Inl e, log_calls [Vae_decode xi] w)
                        | Inr recon \<Rightarrow>
                            (let out = path_join output_path
                                         (''target_0_recon_'' @ str_nat t @ ''.png'')
                             in (Inr acc', log_calls [Vae_decode xi, Save_image out]
                                             (w\<lparr>files := (files w)(out \<mapsto> Png_image recon)\<rparr>))))
                     else (Inr acc', w))
                | _ \<Rightarrow> (Inl RuntimeError, w))))"

fun rollout_loop ::
  "env \<Rightarrow> string \<Rightarrow> tensor list \<Rightarrow> tensor list \<Rightarrow> nat list \<Rightarrow> tensor list \<times> rat list \<Rightarrow> world
     \<Rightarrow> (py_error + tensor list \<times> rat list) \<times> world" where
  "rollout_loop E output_path designs observations [] acc w = (Inr acc, w)"
| "rollout_loop E output_path designs observations (t # ts) acc w =
     (case rollout_step E output_path designs observations t acc w of
        (Inl e, w') \<Rightarrow> (Inl e, w')
      | (Inr acc', w') \<Rightarrow> rollout_loop E output_path designs observations ts acc' w')"

text \<open>
  \<^verbatim>\<open>pd.DataFrame(torch.stack(run_xis).numpy())\<close> with \<open>p\<close> column names: stacking
  nothing, or vectors of different lengths, raises; so does a wrong number of names.
\<close>

definition run_frame :: "nat \<Rightarrow> tensor list \<Rightarrow> py_error + unit" where
  "run_frame p run_xis =
     (case run_xis of
        [] \<Rightarrow> Inl RuntimeError
      | x # rest \<Rightarrow>
          if \<not> list_all (\<lambda>r. length r = length x) rest then Inl RuntimeError
          else if length x \<noteq> p then Inl ValueError
          else Inr ())"

text \<open>
  The block itself: \<^verbatim>\<open>ho_model.T\<close> is saved in \<^verbatim>\<open>temp\<close> and set to the last checkpoint,
  the policy is rolled out, the true parameter and every fifth design are decoded and
  saved, the run is tabulated and handed to \<^verbatim>\<open>plot_trace\<close>, and \<^verbatim>\<open>ho_model.T\<close> is set
  back. \<^verbatim>\<open>plot_trace\<close> comes from the module \<^verbatim>\<open>plotters\<close>, which is not part of the source
  file; it receives the dimension, the horizon, the table of the run and the true
  parameter by value (not the density grids), and is recorded in the log only.
  Directories are not modelled.
\<close>

definition rollout_block ::
  "env \<Rightarrow> nat \<Rightarrow> string \<Rightarrow> string \<Rightarrow> prelude \<Rightarrow> world
     \<Rightarrow> (py_error + tensor list \<times> tensor list \<times> string) \<times> world" where
  "rollout_block E p dir mi_estimator S w =
     (case py_get (pre_T_to_plot S) (- 1) of
        Inl e \<Rightarrow> (Inl e, w)
      | Inr T_last \<Rightarrow>
          (let temp = ho_T w; w1 = w\<lparr>ho_T := T_last\<rparr> in
           case run_policy E (Some (concat (pre_theta S))) w1 of
             (Inl e, w2) \<Rightarrow> (Inl e, w2)
           | (Inr (designs, observations, latents), w2) \<Rightarrow>
               (let output_path = path_join dir
                      (str_nat p @ ''_dim_'' @ mi_estimator @ ''_'' @ str_int (ho_T w2)) in
                case vae_decode E (concat (pre_theta S)) of
                  Inl e \<Rightarrow> (Inl e, log_calls [Vae_decode (concat (pre_theta S))] w2)
                | Inr recon \<Rightarrow>
                    (let out = path_join output_path ''target_0.png'';
                         w3 = log_calls [Vae_decode (concat (pre_theta S)), Save_image out]
                                (w2\<lparr>files := (files w2)(out \<mapsto> Png_image recon)\<rparr>) in
                     case rollout_loop E output_path designs observations
                            (py_range1 (ho_T w3)) ([], []) w3 of
                       (Inl e, w4) \<Rightarrow> (Inl e, w4)
                     | (Inr (run_xis, run_ys), w4) \<Rightarrow>
                         (case run_frame p run_xis of
                            Inl e \<Rightarrow> (Inl e, w4)
                          | Inr u \<Rightarrow>
                              (let w5 = log_calls [Plot_trace (ho_T w4)] w4
                               in (Inr (designs, observations, output_path),
                                   w5\<lparr>ho_T := temp\<rparr>)))))))"

subsection \<open>The checkpoint loop (lines 263 to 291)\<close>

text \<open>
  Lines 266 to 268: the designs and observations of the first \<open>T\<close> steps, stored under
  the keys \<^verbatim>\<open>xi1, y1, xi2, y2, ...\<close>.
\<close>

fun data_loop ::
  "tensor list \<Rightarrow> tensor list \<Rightarrow> nat list \<Rightarrow> (string \<rightharpoonup> tensor) \<Rightarrow> py_error + (string \<rightharpoonup> tensor)" where
  "data_loop designs observations [] data_dict = Inr data_dict"
| "data_loop designs observations (t # ts) data_dict =
     (case py_get designs (int t) of
        Inl e \<Rightarrow> Inl e
      | Inr xi \<Rightarrow>
          (case py_get observations (int t) of
             Inl e \<Rightarrow> Inl e
           | Inr y \<Rightarrow>
               data_loop designs observations ts
                 (data_dict(''xi'' @ str_nat (t + 1) \<mapsto> xi, ''y'' @ str_nat (t + 1) \<mapsto> y))))"

text \<open>Lines 274 and 275: the kernel and the sampler.\<close>

definition mcmc_setup :: "nat \<Rightarrow> mcmc_config" where
  "mcmc_setup p =
     \<lparr>target_accept_prob = 9 / 10, num_samples = 250 * p, warmup_steps = 200 * p,
      num_chains = 4\<rparr>"

text \<open>
  Lines 282 and 283: \<^verbatim>\<open>posterior.squeeze()\<close> drops the dimensions of size one, so the
  samples stay a matrix only when there is more than one column and not exactly one row;
  \<^verbatim>\<open>posterior[:, i]\<close> raises on anything else.
\<close>

definition posterior_by_dim :: "nat \<Rightarrow> tensor list \<Rightarrow> py_error + tensor list" where
  "posterior_by_dim p posterior =
     (if length posterior = 1 \<or> p = 1 then Inl IndexError
      else if list_all (\<lambda>row. p \<le> length row) posterior
        then Inr (map (\<lambda>i. map (\<lambda>row. row ! i) posterior) [0..<p])
        else Inl IndexError)"

text \<open>
  The body of \<^verbatim>\<open>for T in T_to_plot\<close>. The accumulator is \<^verbatim>\<open>(map_list, f_list)\<close>; a
  density grid is kept as its shape and its values in C order.
\<close>

definition checkpoint_body ::
  "env \<Rightarrow> nat \<Rightarrow> tensor list \<Rightarrow> tensor list \<Rightarrow> tensor list \<Rightarrow> nat list \<Rightarrow> int
     \<Rightarrow> tensor list \<times> (nat list \<times> tensor) list \<Rightarrow> world
     \<Rightarrow> (py_error + tensor list \<times> (nat list \<times> tensor) list) \<times> world" where
  "checkpoint_body E p designs observations positions grid_shape T acc w =
     (let temp = ho_T w; w1 = w\<lparr>ho_T := T\<rparr> in
      case data_loop designs observations (py_range1 (ho_T w1)) Map.empty of
        Inl e \<Rightarrow> (Inl e, w1)
      | Inr data_dict \<Rightarrow>
          (let cfg = mcmc_setup p;
               w2 = log_calls [Mcmc_run cfg (ho_T w1)] w1 in
           case mcmc_samples E cfg (ho_T w1) data_dict of
             Inl e \<Rightarrow> (Inl e, w2)
           | Inr posterior \<Rightarrow>
               (case posterior_by_dim p posterior of
                  Inl e \<Rightarrow> (Inl e, w2)
                | Inr values \<Rightarrow>
                    (let w3 = log_calls [Gaussian_kde] w2 in
                     case gaussian_kde E values of
                       Inl e \<Rightarrow> (Inl e, w3)
                     | Inr kde \<Rightarrow>
                         (let pdf = map kde
                                      (map (column positions) [0..<n_columns positions]) in
                          case argmax pdf of
                            Inl e \<Rightarrow> (Inl e, w3)
                          | Inr k \<Rightarrow>
                              (Inr (fst acc @ [column positions k],
                                    snd acc @ [(grid_shape, pdf)]),
                               w3\<lparr>ho_T := temp\<rparr>))))))"

fun checkpoint_loop ::
  "env \<Rightarrow> nat \<Rightarrow> tensor list \<Rightarrow> tensor list \<Rightarrow> tensor list \<Rightarrow> nat list \<Rightarrow> int list
     \<Rightarrow> tensor list \<times> (nat list \<times> tensor) list \<Rightarrow> world
     \<Rightarrow> (py_error + tensor list \<times> (nat list \<times> tensor) list) \<times> world" where
  "checkpoint_loop E p designs observations positions grid_shape [] acc w = (Inr acc, w)"
| "checkpoint_loop E p designs observations positions grid_shape (T # Ts) acc w =
     (case checkpoint_body E p designs observations positions grid_shape T acc w of
        (Inl e, w') \<Rightarrow> (Inl e, w')
      | (Inr acc', w') \<Rightarrow>
          checkpoint_loop E p designs observations positions grid_shape Ts acc' w')"

subsection \<open>The script\<close>

text \<open>
  The script from line 179 on, given the parameters \<^verbatim>\<open>mi_estimator\<close> and
  \<^verbatim>\<open>design_arch\<close> of the run and the dimension \<^verbatim>\<open>ho_model.p\<close>. It returns
  \<^verbatim>\<open>(map_list, f_list)\<close>. The only renderer called is \<^verbatim>\<open>plot_vae_decode\<close> (line 293).
\<close>

definition main ::
  "env \<Rightarrow> args \<Rightarrow> string \<Rightarrow> string \<Rightarrow> nat \<Rightarrow> world
     \<Rightarrow> (py_error + tensor list \<times> (nat list \<times> tensor) list) \<times> world" where
  "main E a mi_param design_arch p w =
     (let dir = ''./latex_figures'';
          mi_estimator = (if mi_param = ''sPCE'' then mi_param @ ''_'' @ design_arch
                          else mi_param) in
      case main_setup a p (ho_T w) of
        Inl e \<Rightarrow> (Inl e, w)
      | Inr S \<Rightarrow>
          (case rollout_block E p dir mi_estimator S w of
             (Inl e, w1) \<Rightarrow> (Inl e, w1)
           | (Inr (designs, observations, output_path), w1) \<Rightarrow>
               (case checkpoint_loop E p designs observations (pre_positions S)
                       (pre_grid_shape S) (pre_T_to_plot S) ([], []) w1 of
                  (Inl e, w2) \<Rightarrow> (Inl e, w2)
                | (Inr (map_list, f_list), w2) \<Rightarrow>
                    (case plot_vae_decode E (map_list @ pre_theta S) output_path mi_estimator
                            (pre_T_to_plot S) (theta_index a) p ''MAP'' w2 of
                       (Inl e, w3) \<Rightarrow> (Inl e, w3)
                     | (Inr u, w3) \<Rightarrow> (Inr (map_list, f_list), w3)))))"

section \<open>A concrete run\<close>

text \<open>
  A small run on which the definitions are evaluated: two latent dimensions, three bins
  per axis, the checkpoints \<open>0, 1, 2, 3\<close>; a decoder that returns its input, a policy
  that proposes \<open>(t, 1)\<close> at step \<open>t\<close>, a sampler with two samples and a density with
  its mode at \<open>(1, 0)\<close>.
\<close>

definition demo_env :: env where
  "demo_env =
     \<lparr>vae_decode = (\<lambda>z. Inr z),
      policy_design = (\<lambda>hist. [of_nat (length hist), 1]),
      outcome = (\<lambda>xi th t. 0),
      prior_theta = [0, 0],
      mcmc_samples = (\<lambda>cfg T d. Inr [[0, 1], [1, 2]]),
      gaussian_kde =
        (\<lambda>vs. Inr (\<lambda>x. 1 / (1 + (x ! 0 - 1) * (x ! 0 - 1) + (x ! 1) * (x ! 1))))\<rparr>"

definition demo_args :: args where
  "demo_args = \<lparr>T_to_plot_arg = Some 3, theta_index = 0, bin = 3,
      limits_arg = [Some (- 2), Some 2], T_step = 1\<rparr>"

definition world0 :: world where
  "world0 = \<lparr>ho_T = 30, files = Map.empty, calls = []\<rparr>"

definition demo_pre :: prelude where
  "demo_pre = \<lparr>pre_theta = [[1 / 2, 1 / 2]], pre_limits = (- (3 / 2), 3 / 2),
     pre_grid_shape = [3, 3],
     pre_positions = [[- (3 / 2), - (3 / 2), - (3 / 2), 0, 0, 0, 3 / 2, 3 / 2, 3 / 2],
                      [- (3 / 2), 0, 3 / 2, - (3 / 2), 0, 3 / 2, - (3 / 2), 0, 3 / 2]],
     pre_T_to_plot = [0, 1, 2, 3]\<rparr>"

definition demo_designs :: "tensor list" where
  "demo_designs = [[0, 1], [1, 1], [2, 1]]"

definition demo_observations :: "tensor list" where
  "demo_observations = [[0], [0], [0]]"

definition demo_pdf :: tensor where
  "demo_pdf = [2 / 19, 4 / 29, 2 / 19, 4 / 17, 1 / 2, 4 / 17, 2 / 7, 4 / 5, 2 / 7]"

definition demo_result :: "tensor list \<times> (nat list \<times> tensor) list" where
  "demo_result = (replicate 4 [3 / 2, 0], replicate 4 ([3, 3], demo_pdf))"

text \<open>
  The run of the specification's example: \<^verbatim>\<open>--T-to-plot 30 --T-step 10\<close>, with two bins per
  axis and a roll-out of thirty steps.
\<close>

definition demo_args30 :: args where
  "demo_args30 = \<lparr>T_to_plot_arg = Some 30, theta_index = 0, bin = 2,
      limits_arg = [Some (- (3 / 2)), Some (3 / 2)], T_step = 10\<rparr>"

definition demo_designs30 :: "tensor list" where
  "demo_designs30 = map (\<lambda>t. [of_nat t, 1]) [0..<30]"

definition demo_observations30 :: "tensor list" where
  "demo_observations30 = replicate 30 [0]"

definition demo_pre30 :: prelude where
  "demo_pre30 = \<lparr>pre_theta = [[1 / 2, 1 / 2]], pre_limits = (- (3 / 2), 3 / 2),
     pre_grid_shape = [2, 2],
     pre_positions = [[- (3 / 2), - (3 / 2), 3 / 2, 3 / 2], [- (3 / 2), 3 / 2, - (3 / 2), 3 / 2]],
     pre_T_to_plot = [0, 10, 20, 30]\<rparr>"

definition demo_pdf30 :: tensor where
  "demo_pdf30 = [2 / 19, 2 / 19, 2 / 7, 2 / 7]"

definition demo_embeddings :: "tensor list" where
  "demo_embeddings = replicate 4 [3 / 2, 0] @ [[1 / 2, 1 / 2]]"

section \<open>Reading the log of calls\<close>

text \<open>The calls that only the contour-grid renderer makes, and the sampler runs.\<close>

fun is_contour :: "call \<Rightarrow> bool" where
  "is_contour (Contourf i) = True"
| "is_contour (Contour i) = True"
| "is_contour c = False"

fun is_mcmc_run :: "call \<Rightarrow> bool" where
  "is_mcmc_run (Mcmc_run cfg T) = True"
| "is_mcmc_run c = False"

section \<open>Properties of the primitives\<close>



lemma mgrid_axis_length: "length (mgrid_axis lo hi b) = nat \<bar>b\<bar>"
  by (simp add: mgrid_axis_def Let_def)





lemma checkpoint_body_Inr:
  assumes "checkpoint_body E p designs observations positions grid_shape T acc w = (Inr acc', w')"
  shows "\<exists>dd posterior vals kde k.
     data_loop designs observations (py_range1 T) Map.empty = Inr dd \<and>
     mcmc_samples E (mcmc_setup p) T dd = Inr posterior \<and>
     posterior_by_dim p posterior = Inr vals \<and>
     gaussian_kde E vals = Inr kde \<and>
     argmax (map kde (map (column positions) [0..<n_columns positions])) = Inr k \<and>
     acc' = (fst acc @ [column positions k],
             snd acc @ [(grid_shape, map kde (map (column positions) [0..<n_columns positions]))]) \<and>
     w' = w\<lparr>calls := calls w @ [Mcmc_run (mcmc_setup p) T, Gaussian_kde]\<rparr>"
  using assms
  by (auto simp: checkpoint_body_def Let_def log_calls_def split: sum.splits)

lemma grid_limits_Inr: "grid_limits a = Inr l \<Longrightarrow> l = (- (3 / 2), 3 / 2)"
  by (auto simp: grid_limits_def split: sum.splits)

lemma main_setup_Inr:
  assumes "main_setup a p T0 = Inr S"
  shows "pre_limits S = (- (3 / 2), 3 / 2)
     \<and> positions_rows p (mgrid_axis (- (3 / 2)) (3 / 2) (bin a)) = Inr (pre_positions S)
     \<and> checkpoints a T0 = Inr (pre_T_to_plot S)
     \<and> pre_grid_shape S = replicate p (nat \<bar>bin a\<bar>)
     \<and> pre_theta S = [replicate p (1 / 2)]"
  using assms
  by (auto simp: main_setup_def Let_def py_get_def mgrid_axis_length
           dest!: grid_limits_Inr split: sum.splits if_splits)

section \<open>The MAP point\<close>



section \<open>What the stages do to the state\<close>

lemma checkpoint_loop_Inr:
  "checkpoint_loop E p designs observations positions grid_shape Ts acc w = (Inr acc', w') \<Longrightarrow>
   length (fst acc') = length (fst acc) + length Ts \<and>
   length (snd acc') = length (snd acc) + length Ts \<and>
   w' = w\<lparr>calls := calls w @ concat (map (\<lambda>T. [Mcmc_run (mcmc_setup p) T, Gaussian_kde]) Ts)\<rparr>"
proof (induction Ts arbitrary: acc w)
  case Nil
  then show ?case by simp
next
  case (Cons T Ts)
  from Cons.prems obtain acc1 w1 where
    b: "checkpoint_body E p designs observations positions grid_shape T acc w = (Inr acc1, w1)" and
    l: "checkpoint_loop E p designs observations positions grid_shape Ts acc1 w1 = (Inr acc', w')"
    by (auto split: prod.splits sum.splits)
  from checkpoint_body_Inr[OF b] have
    a1: "length (fst acc1) = Suc (length (fst acc))" "length (snd acc1) = Suc (length (snd acc))" and
    w1: "w1 = w\<lparr>calls := calls w @ [Mcmc_run (mcmc_setup p) T, Gaussian_kde]\<rparr>"
    by auto
  from Cons.IH[OF l] a1 w1 show ?case by simp
qed

lemma run_policy_world:
  "run_policy E th w = (r, w') \<Longrightarrow> w' = log_calls [Run_policy (ho_T w)] w"
  by (auto simp: run_policy_def Let_def split: if_splits)

lemma rollout_step_frame:
  "rollout_step E out designs observations t acc w = (r, w') \<Longrightarrow>
   ho_T w' = ho_T w \<and> (\<exists>cs. calls w' = calls w @ cs \<and> filter is_contour cs = [])"
  by (auto simp: rollout_step_def Let_def log_calls_def
           split: sum.splits list.splits if_splits)

lemma rollout_loop_frame:
  "rollout_loop E out designs observations ts acc w = (r, w') \<Longrightarrow>
   ho_T w' = ho_T w \<and> (\<exists>cs. calls w' = calls w @ cs \<and> filter is_contour cs = [])"
proof (induction ts arbitrary: acc w)
  case Nil
  then show ?case by simp
next
  case (Cons t ts)
  obtain r1 w1 where s: "rollout_step E out designs observations t acc w = (r1, w1)"
    by (cases "rollout_step E out designs observations t acc w")
  from rollout_step_frame[OF s] obtain cs1 where
    f: "ho_T w1 = ho_T w" "calls w1 = calls w @ cs1" "filter is_contour cs1 = []"
    by blast
  show ?case
  proof (cases r1)
    case (Inl e)
    with Cons.prems s f show ?thesis by simp
  next
    case (Inr acc1)
    with Cons.prems s have "rollout_loop E out designs observations ts acc1 w1 = (r, w')"
      by simp
    from Cons.IH[OF this] obtain cs2 where
      "ho_T w' = ho_T w1" "calls w' = calls w1 @ cs2" "filter is_contour cs2 = []"
      by blast
    with f have "ho_T w' = ho_T w \<and> calls w' = calls w @ (cs1 @ cs2)
        \<and> filter is_contour (cs1 @ cs2) = []"
      by simp
    then show ?thesis by blast
  qed
qed

lemma rollout_block_contour:
  "rollout_block E p dir mi S w = (r, w') \<Longrightarrow>
   filter is_contour (calls w') = filter is_contour (calls w)"
  by (auto simp: rollout_block_def Let_def log_calls_def
           split: sum.splits prod.splits dest!: run_policy_world rollout_loop_frame)

lemma rollout_block_Inr:
  "rollout_block E p dir mi S w = (Inr x, w') \<Longrightarrow>
   ho_T w' = ho_T w \<and>
   (\<exists>T_last. py_get (pre_T_to_plot S) (- 1) = Inr T_last \<and> Run_policy T_last \<in> set (calls w'))"
  by (auto simp: rollout_block_def Let_def log_calls_def
           split: sum.splits prod.splits dest!: run_policy_world rollout_loop_frame)

lemma checkpoint_body_contour:
  "checkpoint_body E p designs observations positions grid_shape T acc w = (r, w') \<Longrightarrow>
   filter is_contour (calls w') = filter is_contour (calls w)"
  by (auto simp: checkpoint_body_def Let_def log_calls_def split: sum.splits)

lemma checkpoint_loop_contour:
  "checkpoint_loop E p designs observations positions grid_shape Ts acc w = (r, w') \<Longrightarrow>
   filter is_contour (calls w') = filter is_contour (calls w)"
proof (induction Ts arbitrary: acc w)
  case Nil
  then show ?case by simp
next
  case (Cons T Ts)
  obtain r1 w1 where
    s: "checkpoint_body E p designs observations positions grid_shape T acc w = (r1, w1)"
    by (cases "checkpoint_body E p designs observations positions grid_shape T acc w")
  note f = checkpoint_body_contour[OF s]
  show ?case
  proof (cases r1)
    case (Inl e)
    with Cons.prems s f show ?thesis by simp
  next
    case (Inr acc1)
    with Cons.prems s
    have "checkpoint_loop E p designs observations positions grid_shape Ts acc1 w1 = (r, w')"
      by simp
    from Cons.IH[OF this] f show ?thesis by simp
  qed
qed

lemma decode_step_frame:
  "decode_step E axs tmp embs T_list i emb w = (r, w') \<Longrightarrow>
   ho_T w' = ho_T w \<and> filter is_contour (calls w') = filter is_contour (calls w)"
  by (auto simp: decode_step_def Let_def log_calls_def split: sum.splits if_splits)

lemma decode_loop_frame:
  "decode_loop E axs tmp embs T_list i es w = (r, w') \<Longrightarrow>
   ho_T w' = ho_T w \<and> filter is_contour (calls w') = filter is_contour (calls w)"
proof (induction es arbitrary: i w)
  case Nil
  then show ?case by simp
next
  case (Cons e es)
  obtain r1 w1 where s: "decode_step E axs tmp embs T_list i e w = (r1, w1)"
    by (cases "decode_step E axs tmp embs T_list i e w")
  note f = decode_step_frame[OF s]
  show ?case
  proof (cases r1)
    case (Inl err)
    with Cons.prems s f show ?thesis by simp
  next
    case (Inr u)
    with Cons.prems s have "decode_loop E axs tmp embs T_list (Suc i) es w1 = (r, w')"
      by simp
    from Cons.IH[OF this] f show ?thesis by simp
  qed
qed

lemma remove_tmp_frame:
  "remove_tmp embs tmp w = (r, w') \<Longrightarrow>
   ho_T w' = ho_T w \<and> filter is_contour (calls w') = filter is_contour (calls w)"
  by (auto simp: remove_tmp_def log_calls_def split: if_splits option.splits)

lemma filter_contour_removed:
  "filter is_contour (map (\<lambda>(r, c). Ax_remove r c) xs) = []"
  by (induction xs) auto

lemma plot_vae_decode_frame:
  "plot_vae_decode E embs dir mi T_list index p type w = (r, w') \<Longrightarrow>
   ho_T w' = ho_T w \<and> filter is_contour (calls w') = filter is_contour (calls w)"
  by (auto simp: plot_vae_decode_def Let_def log_calls_def filter_contour_removed
           split: sum.splits prod.splits
           dest!: decode_loop_frame remove_tmp_frame)

lemma main_contour:
  "main E a mi da p w = (r, w') \<Longrightarrow>
   filter is_contour (calls w') = filter is_contour (calls w)"
  by (auto simp: main_def Let_def split: sum.splits prod.splits
           dest!: rollout_block_contour checkpoint_loop_contour plot_vae_decode_frame)

lemma grid_step_Inr:
  "grid_step axs pdfs ds th i T w = (Inr u, w') \<Longrightarrow> w' = log_calls [Contourf i, Contour i] w"
  by (auto simp: grid_step_def split: sum.splits if_splits)

lemma grid_loop_Inr:
  "grid_loop axs pdfs ds th i Ts w = (Inr u, w') \<Longrightarrow>
   length (filter is_contour (calls w')) = length (filter is_contour (calls w)) + 2 * length Ts"
proof (induction Ts arbitrary: i w)
  case Nil
  then show ?case by simp
next
  case (Cons T Ts)
  from Cons.prems obtain w1 where
    s: "grid_step axs pdfs ds th i T w = (Inr (), w1)" and
    l: "grid_loop axs pdfs ds th (Suc i) Ts w1 = (Inr u, w')"
    by (auto split: prod.splits sum.splits)
  from grid_step_Inr[OF s] have "calls w1 = calls w @ [Contourf i, Contour i]"
    by (simp add: log_calls_def)
  with Cons.IH[OF l] show ?case by simp
qed

lemma plot_posterior_grid_Inr:
  "plot_posterior_grid lims grid pdfs ds Ts me th dir idx v = (Inr u, v') \<Longrightarrow>
   Ts \<noteq> [] \<and>
   length (filter is_contour (calls v')) = length (filter is_contour (calls v)) + 2 * length Ts"
  by (auto simp: plot_posterior_grid_def Let_def log_calls_def subplots_def
           split: sum.splits prod.splits if_splits dest!: grid_loop_Inr)

lemma main_Inr:
  "main E a mi da p w = (Inr (map_list, f_list), w') \<Longrightarrow>
   \<exists>S designs observations out w1 w2.
     main_setup a p (ho_T w) = Inr S \<and>
     rollout_block E p ''./latex_figures''
       (if mi = ''sPCE'' then mi @ ''_'' @ da else mi) S w = (Inr (designs, observations, out), w1) \<and>
     checkpoint_loop E p designs observations (pre_positions S) (pre_grid_shape S)
       (pre_T_to_plot S) ([], []) w1 = (Inr (map_list, f_list), w2) \<and>
     plot_vae_decode E (map_list @ pre_theta S) out
       (if mi = ''sPCE'' then mi @ ''_'' @ da else mi) (pre_T_to_plot S) (theta_index a) p ''MAP'' w2
       = (Inr (), w')"
  unfolding main_def Let_def
  by (auto split: sum.splits prod.splits)

lemma py_range_30_10: "py_range 0 (30 + 1) 10 = Inr [0, 10, 20, 30]"
  by code_simp

lemma filter_mcmc_runs:
  "filter is_mcmc_run (concat (map (\<lambda>T. [Mcmc_run cfg T, Gaussian_kde]) Ts))
     = map (Mcmc_run cfg) Ts"
  by (induction Ts) auto

section \<open>Renderers invoked by the script\<close>

text \<open>
  Claim C3, amended. The script invokes only the VAE-decode renderer: a completed run
  ends with \<^verbatim>\<open>plot_vae_decode\<close> applied to the MAP points followed by the true latent
  parameter, and no run, completed or not, adds a contour call to the log. The
  contour-grid renderer \<^verbatim>\<open>plot_posterior_grid\<close> is defined (a successful call of it draws
  two contour plots per checkpoint) but the script never calls it, so the density grids
  are not rendered.
\<close>

theorem main_renders_only_vae_decode:
  "(main E a mi da p w = (r, w') \<longrightarrow>
      filter is_contour (calls w') = filter is_contour (calls w)) \<and>
   (main E a mi da p w = (Inr (map_list, f_list), w') \<longrightarrow>
      (\<exists>S out w2. main_setup a p (ho_T w) = Inr S \<and>
         plot_vae_decode E (map_list @ pre_theta S) out
           (if mi = ''sPCE'' then mi @ ''_'' @ da else mi) (pre_T_to_plot S) (theta_index a) p
           ''MAP'' w2 = (Inr (), w'))) \<and>
   (plot_posterior_grid lims grid pdfs ds Ts me th dir idx v = (Inr u, v') \<longrightarrow>
      Ts \<noteq> [] \<and>
      length (filter is_contour (calls v')) = length (filter is_contour (calls v)) + 2 * length Ts)"
proof (intro conjI impI)
  assume "main E a mi da p w = (r, w')"
  then show "filter is_contour (calls w') = filter is_contour (calls w)"
    by (rule main_contour)
next
  assume "main E a mi da p w = (Inr (map_list, f_list), w')"
  from main_Inr[OF this]
  show "\<exists>S out w2. main_setup a p (ho_T w) = Inr S \<and>
         plot_vae_decode E (map_list @ pre_theta S) out
           (if mi = ''sPCE'' then mi @ ''_'' @ da else mi) (pre_T_to_plot S) (theta_index a) p
           ''MAP'' w2 = (Inr (), w')"
    by blast
next
  assume g: "plot_posterior_grid lims grid pdfs ds Ts me th dir idx v = (Inr u, v')"
  from plot_posterior_grid_Inr[OF g] show "Ts \<noteq> []" by simp
  from plot_posterior_grid_Inr[OF g]
  show "length (filter is_contour (calls v')) = length (filter is_contour (calls v)) + 2 * length Ts"
    by simp
qed

text \<open>
  The claim as stated fails on the concrete run: the script completes and the log holds
  no contour call.
\<close>

theorem contour_renderer_not_invoked_counterexample:
  "fst (main demo_env demo_args ''sPCE'' ''arch'' 2 world0) = Inr demo_result \<and>
   filter is_contour (calls (snd (main demo_env demo_args ''sPCE'' ''arch'' 2 world0))) = []"
  by code_simp

theorem main_renders_only_vae_decode_witness:
  "fst (main demo_env demo_args ''sPCE'' ''arch'' 2 world0) = Inr demo_result \<and>
   filter is_contour (calls (snd (main demo_env demo_args ''sPCE'' ''arch'' 2 world0)))
     = filter is_contour (calls world0) \<and>
   fst (plot_posterior_grid (- (3 / 2), 3 / 2) (pre_positions demo_pre) (snd demo_result)
          demo_designs [0, 1, 2, 3] ''sPCE_arch'' [[1 / 2, 1 / 2]] ''./latex_figures'' 0 world0)
     = Inr () \<and>
   length (filter is_contour
     (calls (snd (plot_posterior_grid (- (3 / 2), 3 / 2) (pre_positions demo_pre)
                    (snd demo_result) demo_designs [0, 1, 2, 3] ''sPCE_arch'' [[1 / 2, 1 / 2]]
                    ''./latex_figures'' 0 world0)))) = 8"
proof -
  let ?X = "main demo_env demo_args ''sPCE'' ''arch'' 2 world0"
  let ?G = "plot_posterior_grid (- (3 / 2), 3 / 2) (pre_positions demo_pre) (snd demo_result)
              demo_designs [0, 1, 2, 3] ''sPCE_arch'' [[1 / 2, 1 / 2]] ''./latex_figures'' 0 world0"
  have h: "fst ?X = Inr demo_result" by code_simp
  have x: "?X = (fst ?X, snd ?X)" by simp
  have g: "fst ?G = Inr ()" by code_simp
  then have g': "?G = (Inr (), snd ?G)" by (metis prod.collapse)
  have c: "calls world0 = []" by (simp add: world0_def)
  note T = main_renders_only_vae_decode [of demo_env demo_args "''sPCE''" "''arch''" 2 world0
      "fst ?X" "snd ?X" _ _ "(- (3 / 2), 3 / 2)" "pre_positions demo_pre" "snd demo_result"
      demo_designs "[0, 1, 2, 3]" "''sPCE_arch''" "[[1 / 2, 1 / 2]]" "''./latex_figures''" 0
      world0 "()" "snd ?G"]
  from T x have a: "filter is_contour (calls (snd ?X)) = filter is_contour (calls world0)"
    by blast
  from T g' have "length (filter is_contour (calls (snd ?G)))
      = length (filter is_contour (calls world0)) + 2 * length [0, 1, 2, 3 :: int]"
    by blast
  with c have b: "length (filter is_contour (calls (snd ?G))) = 8" by simp
  from h a g b show ?thesis by simp
qed

section \<open>Number of posterior estimates and density grids\<close>

text \<open>
  Claim C5. When the checkpoint loop finishes, \<^verbatim>\<open>map_list\<close> and \<^verbatim>\<open>f_list\<close> each hold
  exactly one entry per element of \<^verbatim>\<open>T_to_plot\<close>, and one sampler run was made per
  element; with \<^verbatim>\<open>--T-to-plot 30\<close> and \<^verbatim>\<open>--T-step 10\<close> the checkpoints are
  \<open>[0, 10, 20, 30]\<close> and both lists have exactly four entries.
\<close>

theorem checkpoint_counts:
  assumes pre: "main_setup a p T0 = Inr S"
    and loop: "checkpoint_loop E p designs observations (pre_positions S) (pre_grid_shape S)
                 (pre_T_to_plot S) ([], []) w = (Inr (map_list, f_list), w')"
  shows "length map_list = length (pre_T_to_plot S) \<and>
         length f_list = length (pre_T_to_plot S) \<and>
         length (filter is_mcmc_run (calls w'))
           = length (filter is_mcmc_run (calls w)) + length (pre_T_to_plot S) \<and>
         (T_to_plot_arg a = Some 30 \<and> T_step a = 10 \<longrightarrow>
            pre_T_to_plot S = [0, 10, 20, 30] \<and> length map_list = 4 \<and> length f_list = 4)"
proof -
  note L = checkpoint_loop_Inr[OF loop]
  from L have m: "length map_list = length (pre_T_to_plot S)"
    and f: "length f_list = length (pre_T_to_plot S)"
    by simp_all
  from L have "calls w' = calls w @ concat (map (\<lambda>T. [Mcmc_run (mcmc_setup p) T, Gaussian_kde])
                                             (pre_T_to_plot S))"
    by simp
  then have c: "length (filter is_mcmc_run (calls w'))
           = length (filter is_mcmc_run (calls w)) + length (pre_T_to_plot S)"
    by (simp add: filter_mcmc_runs)
  have s: "T_to_plot_arg a = Some 30 \<and> T_step a = 10 \<longrightarrow> pre_T_to_plot S = [0, 10, 20, 30]"
  proof
    assume h: "T_to_plot_arg a = Some 30 \<and> T_step a = 10"
    from main_setup_Inr[OF pre] have "checkpoints a T0 = Inr (pre_T_to_plot S)" by simp
    with h py_range_30_10 show "pre_T_to_plot S = [0, 10, 20, 30]"
      by (simp add: checkpoints_def)
  qed
  from m f c s show ?thesis by simp
qed

theorem checkpoint_counts_witness:
  "main_setup demo_args30 2 30 = Inr demo_pre30 \<and>
   fst (checkpoint_loop demo_env 2 demo_designs30 demo_observations30 (pre_positions demo_pre30)
          (pre_grid_shape demo_pre30) (pre_T_to_plot demo_pre30) ([], []) world0)
     = Inr (replicate 4 [3 / 2, - (3 / 2)], replicate 4 ([2, 2], demo_pdf30)) \<and>
   length (replicate 4 [3 / 2, - (3 / 2) :: rat]) = 4 \<and>
   length (replicate 4 ([2, 2 :: nat], demo_pdf30)) = 4"
proof -
  let ?X = "checkpoint_loop demo_env 2 demo_designs30 demo_observations30
              (pre_positions demo_pre30) (pre_grid_shape demo_pre30) (pre_T_to_plot demo_pre30)
              ([], []) world0"
  have h1: "main_setup demo_args30 2 30 = Inr demo_pre30" by code_simp
  have h2: "fst ?X = Inr (replicate 4 [3 / 2, - (3 / 2)], replicate 4 ([2, 2], demo_pdf30))"
    by code_simp
  then have h3: "?X = (Inr (replicate 4 [3 / 2, - (3 / 2)], replicate 4 ([2, 2], demo_pdf30)), snd ?X)"
    by (metis prod.collapse)
  have a: "T_to_plot_arg demo_args30 = Some 30 \<and> T_step demo_args30 = 10"
    by (simp add: demo_args30_def)
  from checkpoint_counts [OF h1 h3] a h1 h2 show ?thesis by blast
qed

section \<open>Configuration of the sampler\<close>

text \<open>
  Claim C4, amended. For every checkpoint of a completed loop the posterior estimator
  is run once, with a gradient-based kernel of target acceptance probability \<open>0.9\<close>,
  \<open>250 p\<close> samples, \<open>200 p\<close> warm-up steps and four chains: the warm-up length scales
  with the latent dimension \<open>p\<close>, as the sample count does.
\<close>

theorem mcmc_configuration:
  assumes "checkpoint_loop E p designs observations positions grid_shape Ts acc w = (Inr acc', w')"
  shows "filter is_mcmc_run (calls w')
     = filter is_mcmc_run (calls w)
       @ map (Mcmc_run \<lparr>target_accept_prob = 9 / 10, num_samples = 250 * p,
                         warmup_steps = 200 * p, num_chains = 4\<rparr>) Ts"
proof -
  from checkpoint_loop_Inr[OF assms]
  have "calls w' = calls w @ concat (map (\<lambda>T. [Mcmc_run (mcmc_setup p) T, Gaussian_kde]) Ts)"
    by simp
  then have "filter is_mcmc_run (calls w')
     = filter is_mcmc_run (calls w) @ map (Mcmc_run (mcmc_setup p)) Ts"
    by (simp add: filter_mcmc_runs)
  then show ?thesis by (simp only: mcmc_setup_def)
qed

theorem mcmc_configuration_witness:
  "fst (checkpoint_loop demo_env 2 demo_designs demo_observations (pre_positions demo_pre)
          (pre_grid_shape demo_pre) [0, 1, 2] ([], []) world0)
     = Inr (replicate 3 [3 / 2, 0], replicate 3 ([3, 3], demo_pdf)) \<and>
   filter is_mcmc_run
     (calls (snd (checkpoint_loop demo_env 2 demo_designs demo_observations
                    (pre_positions demo_pre) (pre_grid_shape demo_pre) [0, 1, 2] ([], []) world0)))
     = map (Mcmc_run \<lparr>target_accept_prob = 9 / 10, num_samples = 500, warmup_steps = 400,
                       num_chains = 4\<rparr>) [0, 1, 2]"
proof -
  let ?X = "checkpoint_loop demo_env 2 demo_designs demo_observations (pre_positions demo_pre)
          (pre_grid_shape demo_pre) [0, 1, 2] ([], []) world0"
  have h1: "fst ?X = Inr (replicate 3 [3 / 2, 0], replicate 3 ([3, 3], demo_pdf))" by code_simp
  then have h2: "?X = (Inr (replicate 3 [3 / 2, 0], replicate 3 ([3, 3], demo_pdf)), snd ?X)"
    by (metis prod.collapse)
  have c: "calls world0 = []" by (simp add: world0_def)
  from mcmc_configuration [OF h2] c h1 show ?thesis by simp
qed

text \<open>
  The claim as stated asks for the same warm-up length whatever the dimension; the
  warm-up length is \<open>200\<close> for \<open>p = 1\<close> and \<open>400\<close> for \<open>p = 2\<close>.
\<close>

theorem fixed_warmup_counterexample:
  "warmup_steps (mcmc_setup 1) = 200 \<and> warmup_steps (mcmc_setup 2) = 400"
  by (simp add: mcmc_setup_def)

section \<open>The bounding box of the density grid\<close>






section \<open>Length of a roll-out\<close>

lemma rollout_lengths:
  "length (values_of ''design_sample'' (rollout E th n hist)) = n \<and>
   length (values_of ''observation_sample'' (rollout E th n hist)) = n \<and>
   values_of ''latent_sample'' (rollout E th n hist) = []"
  by (induction n arbitrary: hist) (simp_all add: values_of_def Let_def)

text \<open>
  Claim C6. With \<^verbatim>\<open>ho_model.T\<close> set to \<open>T\<close> before the call, \<^verbatim>\<open>run_policy\<close> returns, and
  the sequences of designs and of observations it returns have exactly \<open>T\<close> elements
  each.
\<close>

theorem run_policy_lengths:
  assumes "0 \<le> T"
  shows "\<exists>designs observations latents w'.
     run_policy E theta (w\<lparr>ho_T := T\<rparr>) = (Inr (designs, observations, latents), w') \<and>
     int (length designs) = T \<and> int (length observations) = T"
proof -
  have d: "\<And>th. length (values_of ''design_sample'' (model_trace E th T)) = nat T"
    using rollout_lengths by (simp add: model_trace_def values_of_def)
  have o: "\<And>th. length (values_of ''observation_sample'' (model_trace E th T)) = nat T"
    using rollout_lengths by (simp add: model_trace_def values_of_def)
  have l: "\<And>th. values_of ''latent_sample'' (model_trace E th T) = [th]"
    using rollout_lengths by (simp add: model_trace_def values_of_def)
  show ?thesis
    using assms by (cases theta) (simp_all add: run_policy_def Let_def d o l)
qed

theorem run_policy_lengths_witness:
  "(0::int) \<le> 3 \<and>
   fst (run_policy demo_env (Some [1 / 2, 1 / 2]) (world0\<lparr>ho_T := 3\<rparr>))
     = Inr (demo_designs, demo_observations, [1 / 2, 1 / 2]) \<and>
   int (length demo_designs) = 3 \<and> int (length demo_observations) = 3"
proof -
  have h: "(0::int) \<le> 3" by simp
  have e: "fst (run_policy demo_env (Some [1 / 2, 1 / 2]) (world0\<lparr>ho_T := 3\<rparr>))
     = Inr (demo_designs, demo_observations, [1 / 2, 1 / 2])"
    by code_simp
  from run_policy_lengths [OF h, of demo_env "Some [1 / 2, 1 / 2]" world0] e h
  show ?thesis by auto
qed

section \<open>The scratch image of \<^verbatim>\<open>plot_vae_decode\<close>\<close>

lemma path_join_length: "length (path_join d n) \<le> length d + 1 + length n"
  by (simp add: path_join_def)

lemma vae_figure_path_not_tmp:
  "vae_figure_path dir p mi type idx \<noteq> path_join dir ''temp.png''"
proof
  assume eq: "vae_figure_path dir p mi type idx = path_join dir ''temp.png''"
  have "length dir + 21 \<le> length (vae_figure_path dir p mi type idx)"
    by (simp add: vae_figure_path_def)
  moreover have "length (path_join dir ''temp.png'') \<le> length dir + 9"
    using path_join_length[of dir "''temp.png''"] by simp
  ultimately show False using eq by simp
qed

lemma decode_step_ext:
  "decode_step E axs tmp embs T_list i emb w = (r, w') \<Longrightarrow>
   \<exists>cs. calls w' = calls w @ cs \<and> (\<forall>u. r = Inr u \<longrightarrow> Save_image tmp \<in> set cs)"
  by (auto simp: decode_step_def Let_def log_calls_def split: sum.splits if_splits)

lemma decode_loop_ext:
  "decode_loop E axs tmp embs T_list i es w = (r, w') \<Longrightarrow>
   \<exists>cs. calls w' = calls w @ cs \<and> (\<forall>u. r = Inr u \<and> es \<noteq> [] \<longrightarrow> Save_image tmp \<in> set cs)"
proof (induction es arbitrary: i w)
  case Nil
  then show ?case by simp
next
  case (Cons e es)
  obtain r1 w1 where s: "decode_step E axs tmp embs T_list i e w = (r1, w1)"
    by (cases "decode_step E axs tmp embs T_list i e w")
  from decode_step_ext[OF s] obtain cs1 where
    c1: "calls w1 = calls w @ cs1" and s1: "\<forall>u. r1 = Inr u \<longrightarrow> Save_image tmp \<in> set cs1"
    by blast
  show ?case
  proof (cases r1)
    case (Inl err)
    with Cons.prems s have "r = Inl err" "w' = w1" by simp_all
    with c1 show ?thesis by simp
  next
    case (Inr u)
    with Cons.prems s have "decode_loop E axs tmp embs T_list (Suc i) es w1 = (r, w')"
      by simp
    from Cons.IH[OF this] obtain cs2 where c2: "calls w' = calls w1 @ cs2" by blast
    from s1 Inr have "Save_image tmp \<in> set (cs1 @ cs2)" by simp
    moreover from c1 c2 have "calls w' = calls w @ (cs1 @ cs2)" by simp
    ultimately show ?thesis by blast
  qed
qed

lemma remove_tmp_Inr:
  "remove_tmp embs tmp w = (Inr u, w') \<Longrightarrow>
   embs \<noteq> [] \<and> files w' tmp = None \<and> calls w' = calls w @ [Os_remove tmp]"
  by (auto simp: remove_tmp_def log_calls_def split: if_splits option.splits)

lemma plot_vae_decode_Inr:
  "plot_vae_decode E embs dir mi T_list index p type w = (Inr u, w') \<Longrightarrow>
   \<exists>axs w1 removed w2.
     decode_loop E axs (path_join dir ''temp.png'') embs T_list 0 embs
       (log_calls [Subplots (length T_list div 4 + 1) 4] w) = (Inr (), w1) \<and>
     remove_tmp embs (path_join dir ''temp.png'')
       (log_calls (map (\<lambda>(r, c). Ax_remove r c) removed) w1) = (Inr (), w2) \<and>
     w' = log_calls [Savefig (vae_figure_path dir p mi type index)]
            (w2\<lparr>files := (files w2)(vae_figure_path dir p mi type index \<mapsto> Png_figure)\<rparr>)"
  unfolding plot_vae_decode_def Let_def
  by (auto split: sum.splits prod.splits)

text \<open>
  Claim C8. Whenever \<^verbatim>\<open>plot_vae_decode\<close> is called with a non-empty \<^verbatim>\<open>embedding_list\<close>
  and returns normally, the scratch file \<^verbatim>\<open>temp.png\<close> of the output directory, which the
  call wrote with \<^verbatim>\<open>save_image\<close> and removed with \<^verbatim>\<open>os.remove\<close>, does not exist on
  return.
\<close>

theorem temp_file_removed:
  assumes run: "plot_vae_decode E embedding_list dir mi_estimator T_list index p type w = (Inr u, w')"
    and nonempty: "embedding_list \<noteq> []"
  shows "files w' (path_join dir ''temp.png'') = None \<and>
     (\<exists>cs. calls w' = calls w @ cs \<and>
        Save_image (path_join dir ''temp.png'') \<in> set cs \<and>
        Os_remove (path_join dir ''temp.png'') \<in> set cs)"
proof -
  let ?tmp = "path_join dir ''temp.png''"
  let ?out = "vae_figure_path dir p mi_estimator type index"
  from plot_vae_decode_Inr[OF run] obtain axs w1 removed w2 where
    loop: "decode_loop E axs ?tmp embedding_list T_list 0 embedding_list
       (log_calls [Subplots (length T_list div 4 + 1) 4] w) = (Inr (), w1)" and
    rm: "remove_tmp embedding_list ?tmp
       (log_calls (map (\<lambda>(r, c). Ax_remove r c) removed) w1) = (Inr (), w2)" and
    w': "w' = log_calls [Savefig ?out] (w2\<lparr>files := (files w2)(?out \<mapsto> Png_figure)\<rparr>)"
    by blast
  from decode_loop_ext[OF loop] nonempty obtain cs1 where
    c1: "calls w1 = calls w @ [Subplots (length T_list div 4 + 1) 4] @ cs1" and
    s1: "Save_image ?tmp \<in> set cs1"
    by (auto simp: log_calls_def)
  from remove_tmp_Inr[OF rm] have
    gone: "files w2 ?tmp = None" and
    c2: "calls w2 = calls w1 @ map (\<lambda>(r, c). Ax_remove r c) removed @ [Os_remove ?tmp]"
    by (simp_all add: log_calls_def)
  have f: "files w' ?tmp = None"
    using w' gone vae_figure_path_not_tmp[of dir p mi_estimator type index]
    by (simp add: log_calls_def)
  let ?cs = "[Subplots (length T_list div 4 + 1) 4] @ cs1
             @ map (\<lambda>(r, c). Ax_remove r c) removed @ [Os_remove ?tmp] @ [Savefig ?out]"
  have "calls w' = calls w @ ?cs" using w' c1 c2 by (simp add: log_calls_def)
  moreover have "Save_image ?tmp \<in> set ?cs" using s1 by simp
  moreover have "Os_remove ?tmp \<in> set ?cs" by simp
  ultimately have "\<exists>cs. calls w' = calls w @ cs \<and> Save_image ?tmp \<in> set cs \<and> Os_remove ?tmp \<in> set cs"
    by blast
  with f show ?thesis by simp
qed

theorem temp_file_removed_witness:
  "fst (plot_vae_decode demo_env demo_embeddings ''out'' ''sPCE'' [0, 1, 2, 3] 0 2 ''MAP'' world0)
     = Inr () \<and> demo_embeddings \<noteq> [] \<and>
   files (snd (plot_vae_decode demo_env demo_embeddings ''out'' ''sPCE'' [0, 1, 2, 3] 0 2 ''MAP''
                 world0)) (path_join ''out'' ''temp.png'') = None"
proof -
  let ?X = "plot_vae_decode demo_env demo_embeddings ''out'' ''sPCE'' [0, 1, 2, 3] 0 2 ''MAP'' world0"
  have h1: "fst ?X = Inr ()" by code_simp
  then have h2: "?X = (Inr (), snd ?X)" by (metis prod.collapse)
  have h3: "demo_embeddings \<noteq> []" by (simp add: demo_embeddings_def)
  from temp_file_removed [OF h2 h3] h1 h3 show ?thesis by simp
qed

section \<open>The subplot array of \<^verbatim>\<open>plot_vae_decode\<close>\<close>

lemma axs_all_1d: "ps \<noteq> [] \<Longrightarrow> axs_all (Axes_1d n) ps = Inl IndexError"
  by (cases ps) auto

lemma product_1_4: "List.product [0..<0 + 1] [0..<4] \<noteq> []"
  by code_simp

lemma subplots_few: "length T_list < 4 \<Longrightarrow> subplots (length T_list div 4 + 1) 4 = Inr (Axes_1d 4)"
  by (simp add: subplots_def)

lemma decode_step_1d:
  "decode_step E (Axes_1d n) tmp embs T_list i emb w =
     (case vae_decode E emb of
        Inl e \<Rightarrow> (Inl e, log_calls [Vae_decode emb] w)
      | Inr recon \<Rightarrow>
          (Inl IndexError,
           log_calls [Vae_decode emb, Save_image tmp]
             (w\<lparr>files := (files w)(tmp \<mapsto> Png_image recon)\<rparr>)))"
  by (simp add: decode_step_def Let_def log_calls_def split: sum.splits)

text \<open>
  Claim C9. For every \<^verbatim>\<open>T_list\<close> with fewer than four elements, \<^verbatim>\<open>plt.subplots\<close> returns
  a one-dimensional array of four axes and \<^verbatim>\<open>plot_vae_decode\<close> never returns normally:
  when the decoder accepts the first embedding, the access \<^verbatim>\<open>axs[row, col]\<close> of the first
  iteration raises IndexError, after the scratch image was written and before anything
  is shown; with no embedding at all the same access raises in the loop that hides the
  ticks.
\<close>

theorem plot_vae_decode_needs_four_checkpoints:
  assumes few: "length T_list < 4"
  shows "subplots (length T_list div 4 + 1) 4 = Inr (Axes_1d 4) \<and>
     (\<exists>e. fst (plot_vae_decode E embedding_list dir mi_estimator T_list index p type w) = Inl e) \<and>
     (embedding_list = [] \<longrightarrow>
        fst (plot_vae_decode E embedding_list dir mi_estimator T_list index p type w)
          = Inl IndexError) \<and>
     (\<forall>e0 rest recon. embedding_list = e0 # rest \<and> vae_decode E e0 = Inr recon \<longrightarrow>
        fst (plot_vae_decode E embedding_list dir mi_estimator T_list index p type w)
          = Inl IndexError \<and>
        calls (snd (plot_vae_decode E embedding_list dir mi_estimator T_list index p type w))
          = calls w @ [Subplots 1 4, Vae_decode e0, Save_image (path_join dir ''temp.png'')] \<and>
        files (snd (plot_vae_decode E embedding_list dir mi_estimator T_list index p type w))
          (path_join dir ''temp.png'') = Some (Png_image recon))"
proof -
  let ?P = "plot_vae_decode E embedding_list dir mi_estimator T_list index p type w"
  from few have d: "length T_list div 4 = 0" by simp
  note sp = subplots_few[OF few]
  have empty: "embedding_list = [] \<Longrightarrow> fst ?P = Inl IndexError"
    using sp d product_1_4
    by (simp add: plot_vae_decode_def Let_def axs_all_1d)
  have first: "\<And>e0 rest recon. embedding_list = e0 # rest \<Longrightarrow> vae_decode E e0 = Inr recon \<Longrightarrow>
      ?P = (Inl IndexError,
            log_calls [Vae_decode e0, Save_image (path_join dir ''temp.png'')]
              ((log_calls [Subplots 1 4] w)
                 \<lparr>files := (files w)(path_join dir ''temp.png'' \<mapsto> Png_image recon)\<rparr>))"
    using sp d
    by (simp add: plot_vae_decode_def Let_def decode_step_1d log_calls_def)
  have failing: "\<And>e0 rest e. embedding_list = e0 # rest \<Longrightarrow> vae_decode E e0 = Inl e \<Longrightarrow>
      fst ?P = Inl e"
    using sp d
    by (simp add: plot_vae_decode_def Let_def decode_step_1d)
  have ex: "\<exists>e. fst ?P = Inl e"
  proof (cases embedding_list)
    case Nil
    with empty show ?thesis by blast
  next
    case (Cons e0 rest)
    show ?thesis
    proof (cases "vae_decode E e0")
      case (Inl e)
      with failing[OF Cons] show ?thesis by blast
    next
      case (Inr recon)
      with first[OF Cons] show ?thesis by simp
    qed
  qed
  from sp ex empty first show ?thesis
    by (simp add: log_calls_def)
qed

theorem plot_vae_decode_needs_four_checkpoints_witness:
  "length [0, 10, 20 :: int] < 4 \<and>
   fst (plot_vae_decode demo_env (replicate 3 [3 / 2, 0] @ [[1 / 2, 1 / 2]]) ''out'' ''sPCE''
          [0, 10, 20] 0 2 ''MAP'' world0) = Inl IndexError \<and>
   calls (snd (plot_vae_decode demo_env (replicate 3 [3 / 2, 0] @ [[1 / 2, 1 / 2]]) ''out''
                 ''sPCE'' [0, 10, 20] 0 2 ''MAP'' world0))
     = [Subplots 1 4, Vae_decode [3 / 2, 0], Save_image ''out/temp.png'']"
proof -
  have h: "length [0, 10, 20 :: int] < 4" by simp
  have e: "replicate 3 [3 / 2, 0 :: rat] @ [[1 / 2, 1 / 2]]
             = [3 / 2, 0] # (replicate 2 [3 / 2, 0] @ [[1 / 2, 1 / 2]])"
    by code_simp
  have v: "vae_decode demo_env [3 / 2, 0] = Inr [3 / 2, 0]"
    by (simp add: demo_env_def)
  have t: "path_join ''out'' ''temp.png'' = ''out/temp.png''" by code_simp
  have c: "calls world0 = []" by (simp add: world0_def)
  from plot_vae_decode_needs_four_checkpoints
         [OF h, of demo_env "replicate 3 [3 / 2, 0] @ [[1 / 2, 1 / 2]]" "''out''" "''sPCE''" 0 2
            "''MAP''" world0]
       e v
  have "fst (plot_vae_decode demo_env (replicate 3 [3 / 2, 0] @ [[1 / 2, 1 / 2]]) ''out'' ''sPCE''
          [0, 10, 20] 0 2 ''MAP'' world0) = Inl IndexError \<and>
   calls (snd (plot_vae_decode demo_env (replicate 3 [3 / 2, 0] @ [[1 / 2, 1 / 2]]) ''out''
                 ''sPCE'' [0, 10, 20] 0 2 ''MAP'' world0))
     = calls world0 @ [Subplots 1 4, Vae_decode [3 / 2, 0], Save_image (path_join ''out'' ''temp.png'')]"
    by blast
  with h t c show ?thesis by simp
qed

section \<open>The horizon of the policy model\<close>

text \<open>
  Claim C10. \<^verbatim>\<open>ho_model.T\<close> is set to the last checkpoint for the roll-out and to \<open>T\<close>
  for the posterior estimate of checkpoint \<open>T\<close>, and it has its initial value again
  after the roll-out block, after every iteration of the checkpoint loop, after the
  whole loop, and when the script ends.
\<close>

theorem ho_T_restored:
  "(rollout_block E p dir mi S w = (Inr x, w1) \<longrightarrow>
      ho_T w1 = ho_T w \<and>
      (\<exists>T_last. py_get (pre_T_to_plot S) (- 1) = Inr T_last \<and> Run_policy T_last \<in> set (calls w1))) \<and>
   (checkpoint_body E p designs observations positions grid_shape T acc w = (Inr acc', w2) \<longrightarrow>
      ho_T w2 = ho_T w \<and> Mcmc_run (mcmc_setup p) T \<in> set (calls w2)) \<and>
   (checkpoint_loop E p designs observations positions grid_shape Ts acc w = (Inr acc'', w3) \<longrightarrow>
      ho_T w3 = ho_T w) \<and>
   (main E a mi_param design_arch p w = (Inr res, w4) \<longrightarrow> ho_T w4 = ho_T w)"
proof (intro conjI impI)
  assume "rollout_block E p dir mi S w = (Inr x, w1)"
  from rollout_block_Inr[OF this]
  show "ho_T w1 = ho_T w"
    and "\<exists>T_last. py_get (pre_T_to_plot S) (- 1) = Inr T_last \<and> Run_policy T_last \<in> set (calls w1)"
    by simp_all
next
  assume "checkpoint_body E p designs observations positions grid_shape T acc w = (Inr acc', w2)"
  from checkpoint_body_Inr[OF this]
  have "w2 = w\<lparr>calls := calls w @ [Mcmc_run (mcmc_setup p) T, Gaussian_kde]\<rparr>" by blast
  then show "ho_T w2 = ho_T w" and "Mcmc_run (mcmc_setup p) T \<in> set (calls w2)"
    by simp_all
next
  assume "checkpoint_loop E p designs observations positions grid_shape Ts acc w = (Inr acc'', w3)"
  from checkpoint_loop_Inr[OF this] show "ho_T w3 = ho_T w" by simp
next
  assume m: "main E a mi_param design_arch p w = (Inr res, w4)"
  obtain map_list f_list where res: "res = (map_list, f_list)" by (cases res)
  from main_Inr[OF m[unfolded res]] obtain S' ds os out v1 v2 where
    rb: "rollout_block E p ''./latex_figures''
           (if mi_param = ''sPCE'' then mi_param @ ''_'' @ design_arch else mi_param) S' w
           = (Inr (ds, os, out), v1)" and
    cl: "checkpoint_loop E p ds os (pre_positions S') (pre_grid_shape S') (pre_T_to_plot S')
           ([], []) v1 = (Inr (map_list, f_list), v2)" and
    pv: "plot_vae_decode E (map_list @ pre_theta S') out
           (if mi_param = ''sPCE'' then mi_param @ ''_'' @ design_arch else mi_param)
           (pre_T_to_plot S') (theta_index a) p ''MAP'' v2 = (Inr (), w4)"
    by blast
  from rollout_block_Inr[OF rb] have "ho_T v1 = ho_T w" by simp
  moreover from checkpoint_loop_Inr[OF cl] have "ho_T v2 = ho_T v1" by simp
  moreover from plot_vae_decode_frame[OF pv] have "ho_T w4 = ho_T v2" by simp
  ultimately show "ho_T w4 = ho_T w" by simp
qed

theorem ho_T_restored_witness:
  "fst (main demo_env demo_args ''sPCE'' ''arch'' 2 world0) = Inr demo_result \<and>
   ho_T (snd (main demo_env demo_args ''sPCE'' ''arch'' 2 world0)) = ho_T world0 \<and>
   fst (checkpoint_body demo_env 2 demo_designs demo_observations (pre_positions demo_pre)
          (pre_grid_shape demo_pre) 2 ([], []) world0)
     = Inr ([[3 / 2, 0]], [([3, 3], demo_pdf)]) \<and>
   ho_T (snd (checkpoint_body demo_env 2 demo_designs demo_observations (pre_positions demo_pre)
          (pre_grid_shape demo_pre) 2 ([], []) world0)) = ho_T world0"
proof -
  let ?X = "main demo_env demo_args ''sPCE'' ''arch'' 2 world0"
  let ?Y = "checkpoint_body demo_env 2 demo_designs demo_observations (pre_positions demo_pre)
          (pre_grid_shape demo_pre) 2 ([], []) world0"
  have h1: "fst ?X = Inr demo_result" by code_simp
  then have h2: "?X = (Inr demo_result, snd ?X)" by (metis prod.collapse)
  have k1: "fst ?Y = Inr ([[3 / 2, 0]], [([3, 3], demo_pdf)])" by code_simp
  then have k2: "?Y = (Inr ([[3 / 2, 0]], [([3, 3], demo_pdf)]), snd ?Y)" by (metis prod.collapse)
  note T = ho_T_restored [of demo_env 2 _ _ _ world0 _ _ demo_designs demo_observations
      "pre_positions demo_pre" "pre_grid_shape demo_pre" 2 "([], [])"
      "([[3 / 2, 0]], [([3, 3], demo_pdf)])" "snd ?Y" _ _ _ demo_args "''sPCE''" "''arch''"
      demo_result "snd ?X"]
  from T h2 have a: "ho_T (snd ?X) = ho_T world0" by blast
  from T k2 have b: "ho_T (snd ?Y) = ho_T world0" by blast
  from h1 k1 a b show ?thesis by simp
qed

end
